theory Spec2Isabelle
  imports Main "HOL-Library.Sublist"
begin

section \<open>JavaScript values, errors and objects\<close>

text \<open>
  The values that flow through \<^verbatim>\<open>Sandbox.js\<close>. Numbers are the integers among the
  JavaScript numbers. A DOM node and any other object is a reference with an identity;
  an array is represented by its elements, as they are when the array is passed on.
\<close>

datatype jsval =
    Undefined
  | Null
  | JBool bool
  | Num int
  | Str string
  | NodeRef nat
  | ObjRef nat
  | Arr "jsval list"

text \<open>What an \<^verbatim>\<open>if (v)\<close> takes as true.\<close>

fun truthy :: "jsval \<Rightarrow> bool" where
  "truthy Undefined = False"
| "truthy Null = False"
| "truthy (JBool b) = b"
| "truthy (Num n) = (n \<noteq> 0)"
| "truthy (Str s) = (s \<noteq> [])"
| "truthy (NodeRef n) = True"
| "truthy (ObjRef n) = True"
| "truthy (Arr xs) = True"

text \<open>\<^verbatim>\<open>v instanceof Node\<close> and \<^verbatim>\<open>Array.isArray(v)\<close>.\<close>

fun instanceof_Node :: "jsval \<Rightarrow> bool" where
  "instanceof_Node (NodeRef n) = True"
| "instanceof_Node v = False"

fun isArray :: "jsval \<Rightarrow> bool" where
  "isArray (Arr xs) = True"
| "isArray v = False"

text \<open>
  What a \<^verbatim>\<open>throw\<close> carries: \<^verbatim>\<open>Error(msg)\<close>, a type error of the language, an
  exception of the DOM with its name,
  or any value thrown by a collaborator.
\<close>

datatype js_error =
    Error string
  | TypeError string
  | DOMException string
  | Thrown jsval

text \<open>
  An object used as a dictionary: its own properties and its prototype. Reading
  \<^verbatim>\<open>obj[name]\<close> walks the prototype chain and gives \<^verbatim>\<open>undefined\<close> when no object
  of the chain has the property.
\<close>

datatype jsobj = JSObject "(string \<times> jsval) list" "jsobj option"

fun lookup_property :: "jsobj \<Rightarrow> string \<Rightarrow> jsval option" where
  "lookup_property (JSObject props proto) name =
     (case map_of props name of
        Some v \<Rightarrow> Some v
      | None \<Rightarrow> (case proto of None \<Rightarrow> None | Some p \<Rightarrow> lookup_property p name))"

text \<open>
  \<^verbatim>\<open>name in obj\<close> asks the whole chain, \<^verbatim>\<open>obj.hasOwnProperty(name)\<close> the object
  alone.
\<close>

fun has_own_property :: "jsobj \<Rightarrow> string \<Rightarrow> bool" where
  "has_own_property (JSObject props proto) name = (map_of props name \<noteq> None)"

definition has_property :: "jsobj \<Rightarrow> string \<Rightarrow> bool" where
  "has_property obj name = (lookup_property obj name \<noteq> None)"

definition get_property :: "jsobj \<Rightarrow> string \<Rightarrow> jsval" where
  "get_property obj name =
     (case lookup_property obj name of None \<Rightarrow> Undefined | Some v \<Rightarrow> v)"


section \<open>The DOM\<close>

text \<open>
  The document tree as far as \<^verbatim>\<open>removeModules\<close> touches it. A node has an identity,
  a kind, attributes and children; the store is the list of the trees that have no
  parent (the document, detached subtrees, fragments).
\<close>

datatype node_kind =
    ElementNode
  | TextNode
  | CommentNode
  | DocumentFragmentNode
  | DocumentNode
  | DocumentTypeNode

datatype dom_tree =
  DomTree (node_id: nat) (node_kind: node_kind)
          (node_attrs: "(string \<times> string) list") (node_children: "dom_tree list")

fun tree_ids :: "dom_tree \<Rightarrow> nat list"
  and forest_ids :: "dom_tree list \<Rightarrow> nat list" where
  "tree_ids (DomTree i k as cs) = i # forest_ids cs"
| "forest_ids [] = []"
| "forest_ids (t # ts) = tree_ids t @ forest_ids ts"

text \<open>The node with a given identity, the first in document order.\<close>

fun find_in_tree :: "nat \<Rightarrow> dom_tree \<Rightarrow> dom_tree option"
  and find_node :: "nat \<Rightarrow> dom_tree list \<Rightarrow> dom_tree option" where
  "find_in_tree n (DomTree i k as cs) =
     (if i = n then Some (DomTree i k as cs) else find_node n cs)"
| "find_node n [] = None"
| "find_node n (t # ts) =
     (case find_in_tree n t of Some r \<Rightarrow> Some r | None \<Rightarrow> find_node n ts)"

text \<open>\<^verbatim>\<open>node.parentNode\<close>: the node that has \<open>n\<close> among its children.\<close>

fun parent_in_tree :: "nat \<Rightarrow> dom_tree \<Rightarrow> nat option"
  and parent_of :: "nat \<Rightarrow> dom_tree list \<Rightarrow> nat option" where
  "parent_in_tree n (DomTree i k as cs) =
     (if n \<in> set (map node_id cs) then Some i else parent_of n cs)"
| "parent_of n [] = None"
| "parent_of n (t # ts) =
     (case parent_in_tree n t of Some p \<Rightarrow> Some p | None \<Rightarrow> parent_of n ts)"

text \<open>Taking a node, with its subtree, out of the store.\<close>

fun remove_from_tree :: "nat \<Rightarrow> dom_tree \<Rightarrow> dom_tree"
  and remove_node :: "nat \<Rightarrow> dom_tree list \<Rightarrow> dom_tree list" where
  "remove_from_tree n (DomTree i k as cs) = DomTree i k as (remove_node n cs)"
| "remove_node n [] = []"
| "remove_node n (t # ts) =
     (if node_id t = n then remove_node n ts
      else remove_from_tree n t # remove_node n ts)"

text \<open>Emptying a node's list of children.\<close>

fun clear_in_tree :: "nat \<Rightarrow> dom_tree \<Rightarrow> dom_tree"
  and clear_children :: "nat \<Rightarrow> dom_tree list \<Rightarrow> dom_tree list" where
  "clear_in_tree n (DomTree i k as cs) =
     (if i = n then DomTree i k as [] else DomTree i k as (clear_children n cs))"
| "clear_children n [] = []"
| "clear_children n (t # ts) = clear_in_tree n t # clear_children n ts"

text \<open>Adding trees at the end of a node's children.\<close>

fun append_in_tree :: "nat \<Rightarrow> dom_tree list \<Rightarrow> dom_tree \<Rightarrow> dom_tree"
  and append_children :: "nat \<Rightarrow> dom_tree list \<Rightarrow> dom_tree list \<Rightarrow> dom_tree list" where
  "append_in_tree p new (DomTree i k as cs) =
     (if i = p then DomTree i k as (cs @ new)
      else DomTree i k as (append_children p new cs))"
| "append_children p new [] = []"
| "append_children p new (t # ts) = append_in_tree p new t # append_children p new ts"

definition fresh_id :: "dom_tree list \<Rightarrow> nat" where
  "fresh_id d = Suc (fold max (forest_ids d) 0)"

text \<open>
  \<^verbatim>\<open>document.createDocumentFragment()\<close>: a new, empty fragment without a parent.
\<close>

definition createDocumentFragment :: "dom_tree list \<Rightarrow> nat \<times> dom_tree list" where
  "createDocumentFragment d =
     (fresh_id d, d @ [DomTree (fresh_id d) DocumentFragmentNode [] []])"

text \<open>
  \<^verbatim>\<open>parent.appendChild(child)\<close> with the validity checks of the DOM standard that
  apply to a parent which is an element or a fragment: the parent must be able to have
  children, the child must not contain the parent, a document is never a child, and a
  doctype is a child of a document only. A fragment given as child hands over its
  children and stays empty; any other child leaves its old parent and becomes the last
  child of the new one. (The further rules for a document as parent are not modelled:
  the source appends to a fragment only. A reference to no node of the store does not
  arise in a run; the function answers it with an exception to stay total.)
\<close>

definition appendChild :: "nat \<Rightarrow> nat \<Rightarrow> dom_tree list \<Rightarrow> js_error + dom_tree list" where
  "appendChild parent child d =
     (case find_node parent d of
        None \<Rightarrow> Inl (DOMException ''NotFoundError'')
      | Some p \<Rightarrow>
          (case find_node child d of
             None \<Rightarrow> Inl (DOMException ''NotFoundError'')
           | Some c \<Rightarrow>
               if node_kind p \<noteq> ElementNode \<and> node_kind p \<noteq> DocumentFragmentNode
                  \<and> node_kind p \<noteq> DocumentNode
               then Inl (DOMException ''HierarchyRequestError'')
               else if parent \<in> set (tree_ids c)
               then Inl (DOMException ''HierarchyRequestError'')
               else if node_kind c = DocumentNode
               then Inl (DOMException ''HierarchyRequestError'')
               else if (node_kind c = TextNode \<and> node_kind p = DocumentNode)
                       \<or> (node_kind c = DocumentTypeNode \<and> node_kind p \<noteq> DocumentNode)
               then Inl (DOMException ''HierarchyRequestError'')
               else if node_kind c = DocumentFragmentNode
               then Inr (append_children parent (node_children c) (clear_children child d))
               else Inr (append_children parent [c] (remove_node child d))))"

text \<open>
  \<^verbatim>\<open>scope.querySelectorAll('[attr]')\<close>: the elements below \<open>scope\<close> that carry the
  attribute, in document order.
\<close>

fun select_tree :: "string \<Rightarrow> dom_tree \<Rightarrow> nat list"
  and select_forest :: "string \<Rightarrow> dom_tree list \<Rightarrow> nat list" where
  "select_tree a (DomTree i k as cs) =
     (if k = ElementNode \<and> map_of as a \<noteq> None then [i] else []) @ select_forest a cs"
| "select_forest a [] = []"
| "select_forest a (t # ts) = select_tree a t @ select_forest a ts"

definition querySelectorAll :: "nat \<Rightarrow> string \<Rightarrow> dom_tree list \<Rightarrow> nat list" where
  "querySelectorAll scope a d =
     (case find_node scope d of None \<Rightarrow> [] | Some t \<Rightarrow> select_forest a (node_children t))"

text \<open>
  \<^verbatim>\<open>element.getAttribute(a)\<close>: the attribute's value, and \<^verbatim>\<open>null\<close> (never
  \<^verbatim>\<open>undefined\<close>) when the element has no such attribute.
\<close>

definition getAttribute :: "nat \<Rightarrow> string \<Rightarrow> dom_tree list \<Rightarrow> jsval" where
  "getAttribute n a d =
     (case find_node n d of
        None \<Rightarrow> Null
      | Some t \<Rightarrow> (case map_of (node_attrs t) a of None \<Rightarrow> Null | Some v \<Rightarrow> Str v))"

section \<open>The collaborators and the world\<close>

text \<open>
  The application is the collaborator behind \<^verbatim>\<open>this._application\<close>; its code is not
  part of \<^verbatim>\<open>Sandbox.js\<close>, so its five methods are parameters of the model. Each
  takes its argument and the state \<open>'x\<close> of everything outside the sandbox (the
  application, its modules, the connectors), and returns a value or throws, leaving a
  new state. The collaborators act on that state only: the fields of the sandbox and the
  DOM are changed by the code of \<^verbatim>\<open>Sandbox.js\<close> alone.
\<close>

record 'x application =
  app_registerModules :: "jsval \<Rightarrow> 'x \<Rightarrow> (js_error + jsval) \<times> 'x"
  app_start :: "jsval \<Rightarrow> 'x \<Rightarrow> (js_error + jsval) \<times> 'x"
  app_stop :: "jsval \<Rightarrow> 'x \<Rightarrow> (js_error + jsval) \<times> 'x"
  app_unregisterModules :: "jsval \<Rightarrow> 'x \<Rightarrow> (js_error + jsval) \<times> 'x"
  app_getModuleById :: "jsval \<Rightarrow> 'x \<Rightarrow> (js_error + jsval) \<times> 'x"

datatype app_method = RegisterModules | Start | Stop | UnregisterModules | GetModuleById

text \<open>
  The trace lists, in the order they happen, the calls the sandbox makes on its
  collaborators and its changes to the DOM. An \<open>EmitCall\<close> names the connector whose
  \<^verbatim>\<open>emit\<close> is invoked, the \<^verbatim>\<open>this\<close> of the invocation and its arguments.
\<close>

datatype event =
    AppCall app_method jsval
  | EmitCall nat jsval "jsval list"
  | DomCreateDocumentFragment nat
  | DomAppendChild nat nat

record 'x world =
  dom :: "dom_tree list"
  ext :: 'x
  trace :: "event list"

definition app_call ::
  "app_method \<Rightarrow> (jsval \<Rightarrow> 'x \<Rightarrow> (js_error + jsval) \<times> 'x) \<Rightarrow> jsval \<Rightarrow> 'x world
   \<Rightarrow> (js_error + jsval) \<times> 'x world" where
  "app_call m f arg w =
     (case f arg (ext w) of
        (r, x') \<Rightarrow> (r, w\<lparr>ext := x', trace := trace w @ [AppCall m arg]\<rparr>))"

section \<open>The sandbox\<close>

text \<open>
  The three fields the constructor sets: \<^verbatim>\<open>_application\<close>, \<^verbatim>\<open>_config\<close> and
  \<^verbatim>\<open>_connectors\<close>. A connector is an object, known by its identity; the list starts
  empty.
\<close>

record 'x sandbox =
  sb_application :: "'x application"
  sb_config :: jsobj
  sb_connectors :: "nat list"

definition Sandbox :: "'x application \<Rightarrow> jsobj \<Rightarrow> 'x sandbox" where
  "Sandbox app cfg = \<lparr>sb_application = app, sb_config = cfg, sb_connectors = []\<rparr>"

subsection \<open>addModules\<close>

definition addModules ::
  "'x sandbox \<Rightarrow> jsval \<Rightarrow> 'x world \<Rightarrow> (js_error + jsval) \<times> 'x world" where
  "addModules this ctx w =
     (if instanceof_Node ctx then
        (case app_call RegisterModules (app_registerModules (sb_application this)) ctx w of
           (Inl e, w1) \<Rightarrow> (Inl e, w1)
         | (Inr modules, w1) \<Rightarrow>
             (case app_call Start (app_start (sb_application this)) modules w1 of
                (Inl e, w2) \<Rightarrow> (Inl e, w2)
              | (Inr u, w2) \<Rightarrow> (Inr modules, w2)))
      else (Inr (Arr []), w))"

subsection \<open>getModuleById\<close>

definition getModuleById ::
  "'x sandbox \<Rightarrow> jsval \<Rightarrow> 'x world \<Rightarrow> (js_error + jsval) \<times> 'x world" where
  "getModuleById this ident w =
     app_call GetModuleById (app_getModuleById (sb_application this)) ident w"

subsection \<open>removeModules\<close>

text \<open>
  The \<^verbatim>\<open>forEach\<close> over the node list: \<open>tmpModules\<close> is the array built so far. An
  exception of the lookup ends the loop and leaves \<^verbatim>\<open>removeModules\<close>.
\<close>

fun collect_modules ::
  "'x sandbox \<Rightarrow> nat list \<Rightarrow> jsval list \<Rightarrow> 'x world \<Rightarrow> (js_error + jsval list) \<times> 'x world" where
  "collect_modules this [] tmpModules w = (Inr tmpModules, w)"
| "collect_modules this (ctx # rest) tmpModules w =
     (let ident = getAttribute ctx ''data-t-id'' (dom w) in
      if ident \<noteq> Undefined then
        (case getModuleById this ident w of
           (Inl e, w1) \<Rightarrow> (Inl e, w1)
         | (Inr module, w1) \<Rightarrow>
             collect_modules this rest
               (if truthy module then tmpModules @ [module] else tmpModules) w1)
      else collect_modules this rest tmpModules w)"

text \<open>
  The block under \<^verbatim>\<open>if (modules instanceof Node)\<close>: it gives the value of
  \<open>modules\<close> after the block.
\<close>

definition modules_of_node ::
  "'x sandbox \<Rightarrow> nat \<Rightarrow> 'x world \<Rightarrow> (js_error + jsval) \<times> 'x world" where
  "modules_of_node this n w =
     (case createDocumentFragment (dom w) of
        (fragment, d1) \<Rightarrow>
          (let calls = trace w @ [DomCreateDocumentFragment fragment, DomAppendChild fragment n]
           in case appendChild fragment n d1 of
                Inl e \<Rightarrow> (Inl e, w\<lparr>dom := d1, trace := calls\<rparr>)
              | Inr d2 \<Rightarrow>
                  (case collect_modules this
                          (querySelectorAll fragment ''data-t-name'' d2) []
                          (w\<lparr>dom := d2, trace := calls\<rparr>) of
                     (Inl e, w4) \<Rightarrow> (Inl e, w4)
                   | (Inr tmpModules, w4) \<Rightarrow> (Inr (Arr tmpModules), w4))))"

text \<open>The block under \<^verbatim>\<open>if (Array.isArray(modules))\<close>.\<close>

definition stop_and_unregister ::
  "'x sandbox \<Rightarrow> jsval \<Rightarrow> 'x world \<Rightarrow> (js_error + unit) \<times> 'x world" where
  "stop_and_unregister this modules w =
     (case app_call Stop (app_stop (sb_application this)) modules w of
        (Inl e, w1) \<Rightarrow> (Inl e, w1)
      | (Inr u, w1) \<Rightarrow>
          (case app_call UnregisterModules
                  (app_unregisterModules (sb_application this)) modules w1 of
             (Inl e, w2) \<Rightarrow> (Inl e, w2)
           | (Inr u', w2) \<Rightarrow> (Inr (), w2)))"

text \<open>
  The first \<^verbatim>\<open>if\<close> as a whole: the value of \<open>modules\<close> when the second \<^verbatim>\<open>if\<close> is
  reached, derived from the node when the argument is an instance of \<^verbatim>\<open>Node\<close> and
  otherwise the argument as it was given.
\<close>

fun handle_collection ::
  "'x sandbox \<Rightarrow> jsval \<Rightarrow> 'x world \<Rightarrow> (js_error + jsval) \<times> 'x world" where
  "handle_collection this (NodeRef n) w = modules_of_node this n w"
| "handle_collection this modules w = (Inr modules, w)"

definition removeModules ::
  "'x sandbox \<Rightarrow> jsval \<Rightarrow> 'x world \<Rightarrow> (js_error + 'x sandbox) \<times> 'x world" where
  "removeModules this modules w =
     (case handle_collection this modules w of
        (Inl e, w1) \<Rightarrow> (Inl e, w1)
      | (Inr modules', w1) \<Rightarrow>
          if isArray modules' then
            (case stop_and_unregister this modules' w1 of
               (Inl e, w2) \<Rightarrow> (Inl e, w2)
             | (Inr u, w2) \<Rightarrow> (Inr this, w2))
          else (Inr this, w1))"

subsection \<open>getConfig and getConfigParam\<close>

definition getConfig :: "'x sandbox \<Rightarrow> jsobj" where
  "getConfig this = sb_config this"

definition getConfigParam :: "'x sandbox \<Rightarrow> string \<Rightarrow> js_error + jsval" where
  "getConfigParam this name =
     (let config = sb_config this in
      if get_property config name \<noteq> Undefined then Inr (get_property config name)
      else Inl (Error (''The config param '' @ name @ '' does not exist'')))"

subsection \<open>addConnector and dispatch\<close>

definition addConnector :: "'x sandbox \<Rightarrow> nat \<Rightarrow> 'x sandbox" where
  "addConnector this connector = this\<lparr>sb_connectors := sb_connectors this @ [connector]\<rparr>"

text \<open>
  \<^verbatim>\<open>f.apply(thisArg, argsArray)\<close>, given the list of what is passed to \<^verbatim>\<open>apply\<close>:
  the first is the \<^verbatim>\<open>this\<close> of the invocation, the second the array of its
  arguments; what is not passed is \<^verbatim>\<open>undefined\<close>, and an absent argument array
  stands for no arguments. An object that is not an array is read as an array-like; the
  objects of this model carry no \<^verbatim>\<open>length\<close>, which gives no arguments. A primitive
  value in the place of the array is a type error.
\<close>

fun apply_arguments :: "jsval list \<Rightarrow> js_error + (jsval \<times> jsval list)" where
  "apply_arguments [] = Inr (Undefined, [])"
| "apply_arguments [thisArg] = Inr (thisArg, [])"
| "apply_arguments (thisArg # Arr argsArray # rest) = Inr (thisArg, argsArray)"
| "apply_arguments (thisArg # Undefined # rest) = Inr (thisArg, [])"
| "apply_arguments (thisArg # Null # rest) = Inr (thisArg, [])"
| "apply_arguments (thisArg # ObjRef r # rest) = Inr (thisArg, [])"
| "apply_arguments (thisArg # NodeRef r # rest) = Inr (thisArg, [])"
| "apply_arguments (thisArg # primitive # rest) =
     Inl (TypeError ''CreateListFromArrayLike called on non-object'')"

text \<open>
  \<^verbatim>\<open>c.emit.apply(...)\<close>: \<open>emit c\<close> is the function found under \<^verbatim>\<open>emit\<close> on the
  connector \<open>c\<close>; it takes the \<^verbatim>\<open>this\<close> and the arguments of the invocation and
  acts on the state outside the sandbox. The trace records how it is invoked.
\<close>

definition emit_apply ::
  "(nat \<Rightarrow> jsval \<Rightarrow> jsval list \<Rightarrow> 'x \<Rightarrow> (js_error + jsval) \<times> 'x) \<Rightarrow> nat \<Rightarrow> jsval list
   \<Rightarrow> 'x world \<Rightarrow> (js_error + jsval) \<times> 'x world" where
  "emit_apply emit c apply_args w =
     (case apply_arguments apply_args of
        Inl e \<Rightarrow> (Inl e, w)
      | Inr (thisArg, args) \<Rightarrow>
          (case emit c thisArg args (ext w) of
             (r, x') \<Rightarrow> (r, w\<lparr>ext := x', trace := trace w @ [EmitCall c thisArg args]\<rparr>)))"

text \<open>
  The \<^verbatim>\<open>for\<close> loop of \<^verbatim>\<open>dispatch\<close>, from index \<open>i\<close>: \<open>connectors\<close> is the array
  the sandbox holds, \<open>len\<close> its length read before the loop, \<open>connector\<close> the first
  argument of \<^verbatim>\<open>dispatch\<close> and \<open>args\<close> the arguments after it
  (\<^verbatim>\<open>[].slice.call(arguments, 1)\<close>). The comparison \<^verbatim>\<open>!==\<close> of two objects is the
  comparison of their identities.
\<close>

function dispatch_loop ::
  "(nat \<Rightarrow> jsval \<Rightarrow> jsval list \<Rightarrow> 'x \<Rightarrow> (js_error + jsval) \<times> 'x) \<Rightarrow> nat list \<Rightarrow> nat
   \<Rightarrow> jsval list \<Rightarrow> nat \<Rightarrow> nat \<Rightarrow> 'x world \<Rightarrow> (js_error + unit) \<times> 'x world" where
  "dispatch_loop emit connectors connector args i len w =
     (if i < len then
        (if connectors ! i \<noteq> connector then
           (case emit_apply emit (connectors ! i) [Arr args] w of
              (Inl e, w1) \<Rightarrow> (Inl e, w1)
            | (Inr r, w1) \<Rightarrow> dispatch_loop emit connectors connector args (Suc i) len w1)
         else dispatch_loop emit connectors connector args (Suc i) len w)
      else (Inr (), w))"
  by pat_completeness auto
termination
  by (relation "measure (\<lambda>(emit, connectors, connector, args, i, len, w). len - i)") auto

declare dispatch_loop.simps [simp del]

definition dispatch ::
  "(nat \<Rightarrow> jsval \<Rightarrow> jsval list \<Rightarrow> 'x \<Rightarrow> (js_error + jsval) \<times> 'x) \<Rightarrow> 'x sandbox \<Rightarrow> nat
   \<Rightarrow> jsval list \<Rightarrow> 'x world \<Rightarrow> (js_error + 'x sandbox) \<times> 'x world" where
  "dispatch emit this connector args w =
     (let connectors = sb_connectors this in
      case dispatch_loop emit connectors connector args 0 (length connectors) w of
        (Inl e, w1) \<Rightarrow> (Inl e, w1)
      | (Inr u, w1) \<Rightarrow> (Inr this, w1))"

text \<open>
  The loop seen as a traversal of the entries that remain: \<open>dispatch_loop\<close> from index
  \<open>i\<close> does what \<open>relay\<close> does on the entries from \<open>i\<close> on (lemma
  \<open>dispatch_loop_relay\<close>).
\<close>

fun relay ::
  "(nat \<Rightarrow> jsval \<Rightarrow> jsval list \<Rightarrow> 'x \<Rightarrow> (js_error + jsval) \<times> 'x) \<Rightarrow> nat list \<Rightarrow> nat
   \<Rightarrow> jsval list \<Rightarrow> 'x world \<Rightarrow> (js_error + unit) \<times> 'x world" where
  "relay emit [] connector args w = (Inr (), w)"
| "relay emit (c # cs) connector args w =
     (if c \<noteq> connector then
        (case emit_apply emit c [Arr args] w of
           (Inl e, w1) \<Rightarrow> (Inl e, w1)
         | (Inr r, w1) \<Rightarrow> relay emit cs connector args w1)
      else relay emit cs connector args w)"

text \<open>
  The lookups of a list of identifiers, one after the other, as
  \<^verbatim>\<open>application.getModuleById\<close> answers them: the list of what it returns, or the
  first exception.
\<close>

fun resolve_all ::
  "'x application \<Rightarrow> jsval list \<Rightarrow> 'x \<Rightarrow> (js_error + jsval list) \<times> 'x" where
  "resolve_all app [] x = (Inr [], x)"
| "resolve_all app (i # is) x =
     (case app_getModuleById app i x of
        (Inl e, x1) \<Rightarrow> (Inl e, x1)
      | (Inr v, x1) \<Rightarrow>
          (case resolve_all app is x1 of
             (Inl e, x2) \<Rightarrow> (Inl e, x2)
           | (Inr vs, x2) \<Rightarrow> (Inr (v # vs), x2)))"

text \<open>
  How many of these lookups are made: all of them, or those up to and including the
  first that throws.
\<close>

fun lookups_made :: "'x application \<Rightarrow> jsval list \<Rightarrow> 'x \<Rightarrow> nat" where
  "lookups_made app [] x = 0"
| "lookups_made app (i # is) x =
     (case app_getModuleById app i x of
        (Inl e, x1) \<Rightarrow> Suc 0
      | (Inr v, x1) \<Rightarrow> Suc (lookups_made app is x1))"

section \<open>Example collaborators\<close>

text \<open>
  An application that keeps its modules in a table from identifier to handle and the
  list of the handles it has started. Its lookup answers \<^verbatim>\<open>undefined\<close> for an
  identifier it does not know.
\<close>

record registry =
  reg_modules :: "(string \<times> jsval) list"
  reg_running :: "jsval list"

fun handles_of :: "jsval \<Rightarrow> jsval list" where
  "handles_of (Arr hs) = hs"
| "handles_of v = []"

definition registry_app :: "registry application" where
  "registry_app =
     \<lparr>app_registerModules = (\<lambda>ctx x. (Inr (Arr (map snd (reg_modules x))), x)),
      app_start = (\<lambda>ms x. (Inr Undefined, x\<lparr>reg_running := reg_running x @ handles_of ms\<rparr>)),
      app_stop =
        (\<lambda>ms x. (Inr Undefined,
                  x\<lparr>reg_running := filter (\<lambda>h. h \<notin> set (handles_of ms)) (reg_running x)\<rparr>)),
      app_unregisterModules =
        (\<lambda>ms x. (Inr Undefined,
                  x\<lparr>reg_modules :=
                      filter (\<lambda>kh. snd kh \<notin> set (handles_of ms)) (reg_modules x)\<rparr>)),
      app_getModuleById =
        (\<lambda>i x. (Inr (case i of
                        Str s \<Rightarrow> (case map_of (reg_modules x) s of
                                    Some h \<Rightarrow> h
                                  | None \<Rightarrow> Undefined)
                      | _ \<Rightarrow> Undefined), x))\<rparr>"

definition example_registry :: registry where
  "example_registry =
     \<lparr>reg_modules = [(''1'', ObjRef 101), (''2'', ObjRef 102)],
      reg_running = [ObjRef 101, ObjRef 102]\<rparr>"

text \<open>
  A document whose body holds a container with three marked module roots; the third
  carries an identifier that the registry does not know.
\<close>

definition example_dom :: "dom_tree list" where
  "example_dom =
     [DomTree 0 DocumentNode []
       [DomTree 1 ElementNode [(''class'', ''body'')]
         [DomTree 2 ElementNode [(''class'', ''container'')]
           [DomTree 3 ElementNode [(''data-t-name'', ''Teaser''), (''data-t-id'', ''1'')]
              [DomTree 4 TextNode [] []],
            DomTree 5 ElementNode [(''data-t-name'', ''Slider''), (''data-t-id'', ''2'')] [],
            DomTree 6 ElementNode [(''data-t-name'', ''Gone''), (''data-t-id'', ''9'')] []]]]]"

definition example_world :: "registry world" where
  "example_world = \<lparr>dom = example_dom, ext = example_registry, trace = []\<rparr>"

definition example_sandbox :: "registry sandbox" where
  "example_sandbox = Sandbox registry_app (JSObject [(''retries'', Num 0)] None)"

text \<open>
  Connectors whose \<^verbatim>\<open>emit\<close> notes what it was invoked with; with \<open>failing_emit\<close> the
  connector 1 throws instead.
\<close>

type_synonym inbox = "(nat \<times> jsval \<times> jsval list) list"

definition recording_emit ::
  "nat \<Rightarrow> jsval \<Rightarrow> jsval list \<Rightarrow> inbox \<Rightarrow> (js_error + jsval) \<times> inbox" where
  "recording_emit c thisArg args x = (Inr Undefined, x @ [(c, thisArg, args)])"

definition failing_emit ::
  "nat \<Rightarrow> jsval \<Rightarrow> jsval list \<Rightarrow> inbox \<Rightarrow> (js_error + jsval) \<times> inbox" where
  "failing_emit c thisArg args x =
     (if c = 1 then (Inl (Error ''emit failed''), x)
      else (Inr Undefined, x @ [(c, thisArg, args)]))"

definition silent_app :: "inbox application" where
  "silent_app =
     \<lparr>app_registerModules = (\<lambda>ctx x. (Inr (Arr []), x)),
      app_start = (\<lambda>ms x. (Inr Undefined, x)),
      app_stop = (\<lambda>ms x. (Inr Undefined, x)),
      app_unregisterModules = (\<lambda>ms x. (Inr Undefined, x)),
      app_getModuleById = (\<lambda>i x. (Inr Undefined, x))\<rparr>"

definition relay_world :: "inbox world" where
  "relay_world = \<lparr>dom = [], ext = [], trace = []\<rparr>"

text \<open>
  Two sandboxes with connectors: \<open>1\<close> registered twice around \<open>2\<close>, and the three
  connectors \<open>3\<close>, \<open>1\<close>, \<open>2\<close> in this order.
\<close>

definition duplicate_relay :: "inbox sandbox" where
  "duplicate_relay =
     addConnector (addConnector (addConnector (Sandbox silent_app (JSObject [] None)) 1) 2) 1"

definition example_relay :: "inbox sandbox" where
  "example_relay =
     addConnector (addConnector (addConnector (Sandbox silent_app (JSObject [] None)) 3) 1) 2"

text \<open>
  The object literal \<^verbatim>\<open>{}\<close>: no property of its own, and \<^verbatim>\<open>Object.prototype\<close>
  behind it, of which the model lists four properties (the functions they hold are the
  objects 1 to 4).
\<close>

definition object_prototype :: jsobj where
  "object_prototype =
     JSObject [(''constructor'', ObjRef 1), (''hasOwnProperty'', ObjRef 2),
               (''toString'', ObjRef 3), (''valueOf'', ObjRef 4)] None"

definition empty_object :: jsobj where
  "empty_object = JSObject [] (Some object_prototype)"

text \<open>
  An application like \<open>registry_app\<close>, except that its lookup throws for an identifier
  it does not know.
\<close>

definition strict_app :: "registry application" where
  "strict_app =
     registry_app
       \<lparr>app_getModuleById :=
          (\<lambda>i x. (case i of
                     Str s \<Rightarrow> (case map_of (reg_modules x) s of
                                 Some h \<Rightarrow> Inr h
                               | None \<Rightarrow>
                                   Inl (Error (''The module with the id '' @ s
                                               @ '' does not exist'')))
                   | _ \<Rightarrow> Inl (Error ''The module does not exist''), x))\<rparr>"

text \<open>
  A store with an empty document and a fragment that holds one marked module root.
\<close>

definition fragment_world :: "registry world" where
  "fragment_world =
     \<lparr>dom = [DomTree 0 DocumentNode [] [],
             DomTree 1 DocumentFragmentNode []
               [DomTree 2 ElementNode [(''data-t-name'', ''Slider''), (''data-t-id'', ''2'')] []]],
      ext = example_registry, trace = []\<rparr>"

section \<open>Configuration lookup\<close>

text \<open>
  C2, as stated, fails: \<^verbatim>\<open>config[name]\<close> reads through the prototype chain. The
  object \<^verbatim>\<open>{}\<close> has no key \<^verbatim>\<open>constructor\<close> of its own, and \<open>getConfigParam\<close>
  returns the function it inherits under that name instead of throwing.
\<close>

theorem getConfigParam_inherited_key_counterexample:
  "\<not> has_own_property empty_object ''constructor''
   \<and> getConfigParam (Sandbox registry_app empty_object) ''constructor'' = Inr (ObjRef 1)"
  by (simp add: empty_object_def object_prototype_def getConfigParam_def get_property_def
      Sandbox_def)

text \<open>
  C2, amended. When neither the configuration nor any object of its prototype chain has
  the key, \<open>getConfigParam\<close> throws the error \<^verbatim>\<open>The config param <key> does not
  exist\<close>: it returns no value, and the message contains the key.
\<close>

theorem getConfigParam_absent_key:
  assumes "\<not> has_property (sb_config this) name"
  shows "getConfigParam this name
           = Inl (Error (''The config param '' @ name @ '' does not exist''))
         \<and> sublist name (''The config param '' @ name @ '' does not exist'')"
proof
  from assms have "get_property (sb_config this) name = Undefined"
    by (simp add: get_property_def has_property_def)
  then show "getConfigParam this name
               = Inl (Error (''The config param '' @ name @ '' does not exist''))"
    by (simp add: getConfigParam_def)
  show "sublist name (''The config param '' @ name @ '' does not exist'')"
    by (rule sublist_appendI)
qed

theorem getConfigParam_absent_key_witness:
  "\<not> has_property empty_object ''missing''
   \<and> getConfigParam (Sandbox registry_app empty_object) ''missing''
       = Inl (Error ''The config param missing does not exist'')
   \<and> sublist ''missing'' ''The config param missing does not exist''"
  using getConfigParam_absent_key [of "Sandbox registry_app empty_object" "''missing''"]
  by (simp add: Sandbox_def has_property_def empty_object_def object_prototype_def)

text \<open>
  C3, as stated, fails: a key can be present and bound to \<^verbatim>\<open>undefined\<close>, which is a
  falsy value too, and then \<open>getConfigParam\<close> throws instead of returning it.
\<close>

theorem getConfigParam_present_key_counterexample:
  "has_property (JSObject [(''k'', Undefined)] None) ''k''
   \<and> getConfigParam (Sandbox registry_app (JSObject [(''k'', Undefined)] None)) ''k''
       \<noteq> Inr (get_property (JSObject [(''k'', Undefined)] None) ''k'')"
  by (simp add: has_property_def getConfigParam_def get_property_def Sandbox_def)

text \<open>
  C3, amended. When the key is present and its value is not \<^verbatim>\<open>undefined\<close>,
  \<open>getConfigParam\<close> returns exactly that value, whether it is truthy or falsy (zero, the
  empty string, \<^verbatim>\<open>false\<close>, \<^verbatim>\<open>null\<close>).
\<close>

theorem getConfigParam_defined_key:
  assumes "lookup_property (sb_config this) name = Some v" and "v \<noteq> Undefined"
  shows "getConfigParam this name = Inr v \<and> v = get_property (sb_config this) name"
  using assms by (simp add: getConfigParam_def get_property_def)

theorem getConfigParam_defined_key_witness:
  "getConfigParam example_sandbox ''retries'' = Inr (Num 0)
   \<and> \<not> truthy (Num 0)
   \<and> getConfigParam (Sandbox registry_app (JSObject [(''name'', Str [])] None)) ''name''
       = Inr (Str [])
   \<and> getConfigParam
        (Sandbox registry_app (JSObject [] (Some (JSObject [(''debug'', JBool False)] None))))
        ''debug''
       = Inr (JBool False)"
  using getConfigParam_defined_key [of example_sandbox "''retries''" "Num 0"]
    getConfigParam_defined_key
      [of "Sandbox registry_app (JSObject [(''name'', Str [])] None)" "''name''" "Str []"]
    getConfigParam_defined_key
      [of "Sandbox registry_app (JSObject [] (Some (JSObject [(''debug'', JBool False)] None)))"
          "''debug''" "JBool False"]
  by (simp add: example_sandbox_def Sandbox_def)

text \<open>
  C10. A key that the configuration has, bound to \<^verbatim>\<open>undefined\<close>, is visible on the
  object that \<open>getConfig\<close> returns, and \<open>getConfigParam\<close> throws for it the very error
  it throws for an absent key.
\<close>

theorem getConfigParam_undefined_value:
  assumes "lookup_property (sb_config this) name = Some Undefined"
  shows "has_property (getConfig this) name
         \<and> getConfigParam this name
             = Inl (Error (''The config param '' @ name @ '' does not exist''))"
  using assms by (simp add: getConfigParam_def get_property_def has_property_def getConfig_def)

theorem getConfigParam_undefined_value_witness:
  "lookup_property (JSObject [(''k'', Undefined)] None) ''k'' = Some Undefined
   \<and> has_property (getConfig (Sandbox registry_app (JSObject [(''k'', Undefined)] None))) ''k''
   \<and> getConfigParam (Sandbox registry_app (JSObject [(''k'', Undefined)] None)) ''k''
       = Inl (Error ''The config param k does not exist'')
   \<and> getConfigParam (Sandbox registry_app (JSObject [] None)) ''k''
       = Inl (Error ''The config param k does not exist'')"
  using getConfigParam_undefined_value
          [of "Sandbox registry_app (JSObject [(''k'', Undefined)] None)" "''k''"]
  by (simp add: Sandbox_def getConfigParam_def get_property_def)

section \<open>Adding modules\<close>

text \<open>
  C4. For a node, when the application's \<open>registerModules\<close> returns \<open>modules\<close> and
  its \<open>start\<close> returns, \<open>addModules\<close> returns exactly \<open>modules\<close>, and by then the
  application has been called twice: \<open>registerModules\<close> with the node, then \<open>start\<close>
  with the same \<open>modules\<close>.
\<close>

theorem addModules_returns_registered:
  assumes "app_registerModules (sb_application this) (NodeRef n) (ext w) = (Inr modules, x1)"
    and "app_start (sb_application this) modules x1 = (Inr u, x2)"
  shows "addModules this (NodeRef n) w
           = (Inr modules,
              w\<lparr>ext := x2,
                trace := trace w @ [AppCall RegisterModules (NodeRef n), AppCall Start modules]\<rparr>)"
  using assms by (simp add: addModules_def app_call_def)

theorem addModules_returns_registered_witness:
  "addModules example_sandbox (NodeRef 2) example_world
     = (Inr (Arr [ObjRef 101, ObjRef 102]),
        \<lparr>dom = example_dom,
         ext = \<lparr>reg_modules = [(''1'', ObjRef 101), (''2'', ObjRef 102)],
                reg_running = [ObjRef 101, ObjRef 102, ObjRef 101, ObjRef 102]\<rparr>,
         trace = [AppCall RegisterModules (NodeRef 2),
                  AppCall Start (Arr [ObjRef 101, ObjRef 102])]\<rparr>)"
  using addModules_returns_registered
          [of example_sandbox 2 example_world "Arr [ObjRef 101, ObjRef 102]" example_registry
              Undefined
              "\<lparr>reg_modules = [(''1'', ObjRef 101), (''2'', ObjRef 102)],
                reg_running = [ObjRef 101, ObjRef 102, ObjRef 101, ObjRef 102]\<rparr>"]
  by (simp add: example_sandbox_def Sandbox_def registry_app_def example_world_def
        example_registry_def)

text \<open>
  C5. For an argument that is not a node (a string, an array, \<^verbatim>\<open>undefined\<close>, ...),
  \<open>addModules\<close> returns an empty array and throws nothing; the world is as before, so
  the application has not been called.
\<close>

theorem addModules_not_a_node:
  assumes "\<not> instanceof_Node ctx"
  shows "addModules this ctx w = (Inr (Arr []), w)"
  using assms by (simp add: addModules_def)

theorem addModules_not_a_node_witness:
  "addModules example_sandbox (Str ''#main'') example_world = (Inr (Arr []), example_world)
   \<and> addModules example_sandbox (Arr [NodeRef 2]) example_world = (Inr (Arr []), example_world)
   \<and> addModules example_sandbox Undefined example_world = (Inr (Arr []), example_world)"
  using addModules_not_a_node [of "Str ''#main''" example_sandbox example_world]
    addModules_not_a_node [of "Arr [NodeRef 2]" example_sandbox example_world]
    addModules_not_a_node [of Undefined example_sandbox example_world]
  by simp

section \<open>The relay\<close>

subsection \<open>The loop as a traversal\<close>

lemma dispatch_loop_relay:
  "len = length connectors \<Longrightarrow>
   dispatch_loop emit connectors connector args i len w
     = relay emit (drop i connectors) connector args w"
proof (induction emit connectors connector args i len w rule: dispatch_loop.induct)
  case (1 emit connectors connector args i len w)
  show ?case
  proof (cases "i < len")
    case False
    with "1.prems" show ?thesis
      by (subst dispatch_loop.simps) simp
  next
    case True
    with "1.prems" have d: "drop i connectors = connectors ! i # drop (Suc i) connectors"
      by (simp add: Cons_nth_drop_Suc)
    show ?thesis
    proof (cases "connectors ! i \<noteq> connector")
      case False
      with True "1.IH"(2) "1.prems" d show ?thesis
        by (subst dispatch_loop.simps) simp
    next
      case neq: True
      obtain r w1 where ea: "emit_apply emit (connectors ! i) [Arr args] w = (r, w1)"
        by (cases "emit_apply emit (connectors ! i) [Arr args] w")
      show ?thesis
      proof (cases r)
        case (Inl e)
        with True neq ea d show ?thesis
          by (subst dispatch_loop.simps) simp
      next
        case (Inr v)
        with True neq ea d "1.IH"(1) [OF True neq ea [symmetric] Inr] "1.prems" show ?thesis
          by (subst dispatch_loop.simps) simp
      qed
    qed
  qed
qed

lemma dispatch_relay:
  "dispatch emit this connector args w
     = (case relay emit (sb_connectors this) connector args w of
          (Inl e, w1) \<Rightarrow> (Inl e, w1)
        | (Inr u, w1) \<Rightarrow> (Inr this, w1))"
  by (simp add: dispatch_def dispatch_loop_relay Let_def)

lemma relay_append:
  "relay emit (xs @ ys) connector args w
     = (case relay emit xs connector args w of
          (Inl e, w1) \<Rightarrow> (Inl e, w1)
        | (Inr u, w1) \<Rightarrow> relay emit ys connector args w1)"
  by (induction xs arbitrary: w) (auto split: prod.splits sum.splits)

text \<open>
  What \<^verbatim>\<open>emit.apply(args)\<close> comes to: \<open>args\<close> is the only thing passed to
  \<^verbatim>\<open>apply\<close>, so it is the \<^verbatim>\<open>this\<close> of the invocation, which has no arguments.
\<close>

lemma emit_apply_payload:
  "emit_apply emit c [Arr args] w
     = (case emit c (Arr args) [] (ext w) of
          (r, x') \<Rightarrow> (r, w\<lparr>ext := x', trace := trace w @ [EmitCall c (Arr args) []]\<rparr>))"
  by (simp add: emit_apply_def)

lemma relay_trace:
  assumes "\<And>c t a x. \<exists>v x'. emit c t a x = (Inr v, x')"
  shows "\<exists>w'. relay emit cs connector args w = (Inr (), w')
          \<and> trace w' = trace w @ map (\<lambda>c. EmitCall c (Arr args) [])
                                     (filter (\<lambda>c. c \<noteq> connector) cs)"
proof (induction cs arbitrary: w)
  case Nil
  show ?case by simp
next
  case (Cons c cs)
  show ?case
  proof (cases "c = connector")
    case True
    with Cons.IH [of w] show ?thesis by simp
  next
    case False
    from assms obtain v x' where e: "emit c (Arr args) [] (ext w) = (Inr v, x')"
      by blast
    let ?w1 = "w\<lparr>ext := x', trace := trace w @ [EmitCall c (Arr args) []]\<rparr>"
    from Cons.IH [of ?w1] False e show ?thesis
      by (simp add: emit_apply_payload)
  qed
qed

text \<open>
  When the traversal returns, it has invoked the \<^verbatim>\<open>emit\<close> of each entry other than
  the origin, in the order of the list, and nothing else.
\<close>

lemma relay_returns_trace:
  "relay emit cs connector args w = (Inr u, w') \<Longrightarrow>
   trace w' = trace w @ map (\<lambda>c. EmitCall c (Arr args) []) (filter (\<lambda>c. c \<noteq> connector) cs)"
proof (induction cs arbitrary: w)
  case Nil
  then show ?case by simp
next
  case (Cons c cs)
  show ?case
  proof (cases "c = connector")
    case True
    with Cons show ?thesis by simp
  next
    case False
    obtain r x' where e: "emit c (Arr args) [] (ext w) = (r, x')"
      by (cases "emit c (Arr args) [] (ext w)")
    let ?w1 = "w\<lparr>ext := x', trace := trace w @ [EmitCall c (Arr args) []]\<rparr>"
    from Cons.prems False e obtain v where "r = Inr v"
      and "relay emit cs connector args ?w1 = (Inr u, w')"
      by (cases r) (auto simp: emit_apply_payload)
    from Cons.IH [OF this(2)] False show ?thesis by simp
  qed
qed

text \<open>
  When no \<^verbatim>\<open>emit\<close> throws, \<open>dispatch\<close> returns the sandbox and has invoked, in the
  order of the list, the \<^verbatim>\<open>emit\<close> of each entry other than the origin, once per
  position; each invocation has the payload array as its \<^verbatim>\<open>this\<close> and no argument.
\<close>

lemma dispatch_invocations:
  assumes "\<And>c t a x. \<exists>v x'. emit c t a x = (Inr v, x')"
  shows "\<exists>w'. dispatch emit this connector args w = (Inr this, w')
          \<and> trace w' = trace w @ map (\<lambda>c. EmitCall c (Arr args) [])
                                     (filter (\<lambda>c. c \<noteq> connector) (sb_connectors this))"
proof -
  from relay_trace [of emit "sb_connectors this" connector args w] assms
  obtain w' where "relay emit (sb_connectors this) connector args w = (Inr (), w')"
    and "trace w' = trace w @ map (\<lambda>c. EmitCall c (Arr args) [])
                                 (filter (\<lambda>c. c \<noteq> connector) (sb_connectors this))"
    by blast
  then show ?thesis by (simp add: dispatch_relay)
qed

subsection \<open>The arguments of emit\<close>

text \<open>
  C1. The sandbox has the connectors \<open>1\<close>, \<open>2\<close>, \<open>1\<close> and connector \<open>2\<close> dispatches
  \<^verbatim>\<open>'click', 7\<close>. Connector \<open>1\<close>, registered twice, has its \<^verbatim>\<open>emit\<close> invoked twice
  and connector \<open>2\<close> never; but each invocation receives an empty list of arguments:
  the payload is only the \<^verbatim>\<open>this\<close> of the invocation.
\<close>

theorem dispatch_passes_no_arguments:
  "sb_connectors duplicate_relay = [1, 2, 1]
   \<and> trace (snd (dispatch recording_emit duplicate_relay 2 [Str ''click'', Num 7] relay_world))
       = [EmitCall 1 (Arr [Str ''click'', Num 7]) [], EmitCall 1 (Arr [Str ''click'', Num 7]) []]
   \<and> ext (snd (dispatch recording_emit duplicate_relay 2 [Str ''click'', Num 7] relay_world))
       = [(1, Arr [Str ''click'', Num 7], []), (1, Arr [Str ''click'', Num 7], [])]"
  by (simp add: dispatch_relay duplicate_relay_def addConnector_def Sandbox_def
      emit_apply_payload recording_emit_def relay_world_def)

subsection \<open>A failing emit\<close>

text \<open>
  C8, as stated, fails: with the connectors \<open>3\<close>, \<open>1\<close>, \<open>2\<close>, where the \<^verbatim>\<open>emit\<close> of
  \<open>1\<close> throws, \<open>dispatch\<close> throws that error after the invocations for \<open>3\<close> and
  \<open>1\<close>; the \<^verbatim>\<open>emit\<close> of \<open>2\<close> is never attempted.
\<close>

theorem dispatch_failure_isolation_counterexample:
  "sb_connectors example_relay = [3, 1, 2]
   \<and> fst (dispatch failing_emit example_relay 0 [Str ''click''] relay_world)
       = Inl (Error ''emit failed'')
   \<and> trace (snd (dispatch failing_emit example_relay 0 [Str ''click''] relay_world))
       = [EmitCall 3 (Arr [Str ''click'']) [], EmitCall 1 (Arr [Str ''click'']) []]"
  by (simp add: dispatch_relay example_relay_def addConnector_def Sandbox_def
      emit_apply_payload failing_emit_def relay_world_def)

text \<open>
  C8, amended. Let the connectors be \<open>pre\<close>, then \<open>c\<close>, then \<open>post\<close>, with \<open>c\<close> not
  the origin. If the dispatch over \<open>pre\<close> alone returns, leaving the world \<open>w1\<close>, and
  the \<^verbatim>\<open>emit\<close> of \<open>c\<close> throws \<open>e\<close> there, then \<open>dispatch\<close> throws \<open>e\<close>. By then
  each entry of \<open>pre\<close> other than the origin has had its \<^verbatim>\<open>emit\<close> invoked, in order;
  the invocation for \<open>c\<close> is the last act of the dispatch, and no \<^verbatim>\<open>emit\<close> of
  \<open>post\<close> is attempted.
\<close>

theorem dispatch_aborts_at_failing_emit:
  assumes "sb_connectors this = pre @ c # post"
    and "c \<noteq> connector"
    and "dispatch emit (this\<lparr>sb_connectors := pre\<rparr>) connector args w = (Inr s, w1)"
    and "emit c (Arr args) [] (ext w1) = (Inl e, x')"
  shows "dispatch emit this connector args w
           = (Inl e, w1\<lparr>ext := x', trace := trace w1 @ [EmitCall c (Arr args) []]\<rparr>)
         \<and> trace w1 = trace w @ map (\<lambda>c. EmitCall c (Arr args) [])
                                    (filter (\<lambda>c. c \<noteq> connector) pre)"
proof -
  from assms(3) have pre: "relay emit pre connector args w = (Inr (), w1)"
    by (auto simp: dispatch_relay split: prod.splits sum.splits)
  from assms(2,4) have "relay emit (c # post) connector args w1
      = (Inl e, w1\<lparr>ext := x', trace := trace w1 @ [EmitCall c (Arr args) []]\<rparr>)"
    by (simp add: emit_apply_payload)
  with pre assms(1) have "dispatch emit this connector args w
      = (Inl e, w1\<lparr>ext := x', trace := trace w1 @ [EmitCall c (Arr args) []]\<rparr>)"
    by (simp add: dispatch_relay relay_append)
  with relay_returns_trace [OF pre] show ?thesis by simp
qed

theorem dispatch_aborts_at_failing_emit_witness:
  "dispatch failing_emit example_relay 0 [Str ''click''] relay_world
     = (Inl (Error ''emit failed''),
        \<lparr>dom = [], ext = [(3, Arr [Str ''click''], [])],
         trace = [EmitCall 3 (Arr [Str ''click'']) [], EmitCall 1 (Arr [Str ''click'']) []]\<rparr>)
   \<and> trace (snd (dispatch failing_emit (example_relay\<lparr>sb_connectors := [3]\<rparr>) 0
                    [Str ''click''] relay_world))
     = [EmitCall 3 (Arr [Str ''click'']) []]"
  using dispatch_aborts_at_failing_emit
          [of example_relay "[3]" 1 "[2]" 0 failing_emit "[Str ''click'']" relay_world
              "example_relay\<lparr>sb_connectors := [3]\<rparr>"
              "\<lparr>dom = [], ext = [(3, Arr [Str ''click''], [])],
                trace = [EmitCall 3 (Arr [Str ''click'']) []]\<rparr>"
              "Error ''emit failed''" "[(3, Arr [Str ''click''], [])]"]
  by (simp add: dispatch_relay example_relay_def addConnector_def Sandbox_def
      emit_apply_payload failing_emit_def relay_world_def)

section \<open>Removing modules\<close>

subsection \<open>Facts about the DOM\<close>

lemma le_fold_max: "x \<in> set xs \<Longrightarrow> x \<le> fold max xs (a::nat)"
proof (induction xs arbitrary: a)
  case Nil
  then show ?case by simp
next
  case (Cons y ys)
  have mono: "a \<le> fold max ys a" for a :: nat
    by (induction ys arbitrary: a) (auto intro: order_trans [OF max.cobounded2])
  from Cons show ?case
  proof (cases "x = y")
    case True
    with mono [of "max y a"] show ?thesis by simp
  next
    case False
    with Cons show ?thesis by simp
  qed
qed

lemma fresh_id_fresh: "fresh_id d \<notin> set (forest_ids d)"
proof
  assume "fresh_id d \<in> set (forest_ids d)"
  then have "fresh_id d \<le> fold max (forest_ids d) 0" by (rule le_fold_max)
  then show False by (simp add: fresh_id_def)
qed

lemma find_absent:
  "n \<notin> set (tree_ids t) \<Longrightarrow> find_in_tree n t = None"
  "n \<notin> set (forest_ids ts) \<Longrightarrow> find_node n ts = None"
  by (induction n t and n ts rule: find_in_tree_find_node.induct) auto

lemma find_found:
  "find_in_tree n t = Some r \<Longrightarrow> node_id r = n \<and> set (tree_ids r) \<subseteq> set (tree_ids t)"
  "find_node n ts = Some r \<Longrightarrow> node_id r = n \<and> set (tree_ids r) \<subseteq> set (forest_ids ts)"
  by (induction n t and n ts rule: find_in_tree_find_node.induct)
     (auto split: if_splits option.splits)

lemma find_node_append:
  "find_node n (xs @ ys)
     = (case find_node n xs of Some r \<Rightarrow> Some r | None \<Rightarrow> find_node n ys)"
  by (induction xs) (auto split: option.splits)

lemma forest_ids_append: "forest_ids (xs @ ys) = forest_ids xs @ forest_ids ys"
  by (induction xs) auto

lemma remove_node_append: "remove_node n (xs @ ys) = remove_node n xs @ remove_node n ys"
  by (induction xs) auto

lemma node_id_in_tree_ids: "node_id t \<in> set (tree_ids t)"
  by (cases t) simp

lemma remove_ids:
  "set (tree_ids (remove_from_tree n t)) \<subseteq> set (tree_ids t) - {n} \<union> {node_id t}"
  "set (forest_ids (remove_node n ts)) \<subseteq> set (forest_ids ts) - {n}"
  using node_id_in_tree_ids
  by (induction n t and n ts rule: remove_from_tree_remove_node.induct) auto

lemma append_children_absent:
  "p \<notin> set (tree_ids t) \<Longrightarrow> append_in_tree p new t = t"
  "p \<notin> set (forest_ids ts) \<Longrightarrow> append_children p new ts = ts"
  by (induction p new t and p new ts rule: append_in_tree_append_children.induct) auto

lemma append_children_append:
  "append_children p new (xs @ ys) = append_children p new xs @ append_children p new ys"
  by (induction xs) auto

lemma parent_absent:
  "n \<notin> set (tree_ids t) \<Longrightarrow> parent_in_tree n t = None"
  "n \<notin> set (forest_ids ts) \<Longrightarrow> parent_of n ts = None"
proof (induction n t and n ts rule: parent_in_tree_parent_of.induct)
  case (1 n i k as cs)
  have "set (map node_id cs) \<subseteq> set (forest_ids cs)"
  proof (induction cs)
    case Nil
    show ?case by simp
  next
    case (Cons c cs)
    then show ?case by (cases c) auto
  qed
  with 1 show ?case by auto
qed auto

lemma parent_of_append:
  "parent_of n (xs @ ys)
     = (case parent_of n xs of Some p \<Rightarrow> Some p | None \<Rightarrow> parent_of n ys)"
  by (induction xs) (auto split: option.splits)

text \<open>
  Appending a node that is an element, a text or a comment to the fragment just created
  succeeds: the node leaves the store with its subtree and becomes the only child of the
  fragment.
\<close>

lemma appendChild_fresh_fragment:
  assumes t: "find_node n d = Some t"
    and kind: "node_kind t = ElementNode \<or> node_kind t = TextNode \<or> node_kind t = CommentNode"
  shows "appendChild (fresh_id d) n (d @ [DomTree (fresh_id d) DocumentFragmentNode [] []])
           = Inr (remove_node n d @ [DomTree (fresh_id d) DocumentFragmentNode [] [t]])"
proof -
  let ?f = "fresh_id d"
  let ?F = "DomTree ?f DocumentFragmentNode [] []"
  have fresh: "?f \<notin> set (forest_ids d)" by (rule fresh_id_fresh)
  from find_found(2) [OF t] have nid: "node_id t = n"
    and sub: "set (tree_ids t) \<subseteq> set (forest_ids d)" by simp_all
  from nid sub node_id_in_tree_ids [of t] have n_in: "n \<in> set (forest_ids d)" by auto
  with fresh have neq: "n \<noteq> ?f" by auto
  from fresh sub have f_out: "?f \<notin> set (tree_ids t)" by auto
  have find_f: "find_node ?f (d @ [?F]) = Some ?F"
    using fresh by (simp add: find_node_append find_absent(2))
  have find_n: "find_node n (d @ [?F]) = Some t"
    using t by (simp add: find_node_append)
  have "?f \<notin> set (forest_ids (remove_node n d))"
    using remove_ids(2) [of n d] fresh by auto
  then have app: "append_children ?f [t] (remove_node n d @ [?F])
      = remove_node n d @ [DomTree ?f DocumentFragmentNode [] [t]]"
    by (simp add: append_children_append append_children_absent(2))
  have rem: "remove_node n (d @ [?F]) = remove_node n d @ [?F]"
    using neq by (simp add: remove_node_append)
  from kind f_out find_f find_n app rem show ?thesis
    by (auto simp: appendChild_def)
qed

subsection \<open>What the calls leave unchanged\<close>

text \<open>
  A call on the application changes neither the DOM nor the trace written so far.
\<close>

lemma app_call_frame:
  "app_call m f arg w = (r, w') \<Longrightarrow> dom w' = dom w \<and> prefix (trace w) (trace w')"
  by (auto simp: app_call_def split: prod.splits)

lemma collect_modules_frame:
  "collect_modules this cs tmp w = (r, w') \<Longrightarrow> dom w' = dom w \<and> prefix (trace w) (trace w')"
proof (induction cs arbitrary: tmp w)
  case Nil
  then show ?case by simp
next
  case (Cons c cs)
  let ?i = "getAttribute c ''data-t-id'' (dom w)"
  show ?case
  proof (cases "?i \<noteq> Undefined")
    case False
    with Cons show ?thesis by (simp add: Let_def)
  next
    case True
    obtain r1 w1 where g: "getModuleById this ?i w = (r1, w1)"
      by (cases "getModuleById this ?i w")
    then have f1: "dom w1 = dom w \<and> prefix (trace w) (trace w1)"
      unfolding getModuleById_def by (rule app_call_frame)
    show ?thesis
    proof (cases r1)
      case (Inl e)
      with True g Cons.prems f1 show ?thesis by (auto simp: Let_def)
    next
      case (Inr v)
      with True g Cons.prems
      have "collect_modules this cs (if truthy v then tmp @ [v] else tmp) w1 = (r, w')"
        by (simp add: Let_def)
      from Cons.IH [OF this] f1 show ?thesis
        by (auto intro: prefix_order.trans)
    qed
  qed
qed

lemma stop_and_unregister_frame:
  "stop_and_unregister this ms w = (r, w') \<Longrightarrow> dom w' = dom w \<and> prefix (trace w) (trace w')"
  by (auto simp: stop_and_unregister_def split: prod.splits sum.splits
      dest!: app_call_frame intro: prefix_order.trans)

lemma modules_of_node_frame:
  assumes t: "find_node n (dom w) = Some t"
    and kind: "node_kind t = ElementNode \<or> node_kind t = TextNode \<or> node_kind t = CommentNode"
    and run: "modules_of_node this n w = (r, w1)"
  shows "dom w1 = remove_node n (dom w) @ [DomTree (fresh_id (dom w)) DocumentFragmentNode [] [t]]
         \<and> prefix (trace w @ [DomCreateDocumentFragment (fresh_id (dom w)),
                               DomAppendChild (fresh_id (dom w)) n]) (trace w1)"
proof -
  let ?f = "fresh_id (dom w)"
  let ?d2 = "remove_node n (dom w) @ [DomTree ?f DocumentFragmentNode [] [t]]"
  let ?w3 = "w\<lparr>dom := ?d2,
               trace := trace w @ [DomCreateDocumentFragment ?f, DomAppendChild ?f n]\<rparr>"
  obtain r4 w4 where c: "collect_modules this (querySelectorAll ?f ''data-t-name'' ?d2) [] ?w3
      = (r4, w4)"
    by (cases "collect_modules this (querySelectorAll ?f ''data-t-name'' ?d2) [] ?w3")
  from collect_modules_frame [OF c]
  have f4: "dom w4 = ?d2"
    "prefix (trace w @ [DomCreateDocumentFragment ?f, DomAppendChild ?f n]) (trace w4)"
    by simp_all
  from run c appendChild_fresh_fragment [OF t kind] have "w1 = w4"
    by (auto simp: modules_of_node_def createDocumentFragment_def Let_def split: sum.splits)
  with f4 show ?thesis by simp
qed

subsection \<open>The loop over the marked elements\<close>

text \<open>
  \<open>getAttribute\<close> never gives \<^verbatim>\<open>undefined\<close>, so the test \<^verbatim>\<open>id !== undefined\<close> holds
  for every element and each one is looked up, in the order of the elements, until a
  lookup throws. When every lookup returns, the array built is the list of the truthy
  answers; when one throws, the loop ends with its exception.
\<close>

lemma getAttribute_defined: "getAttribute c a d \<noteq> Undefined"
  by (simp add: getAttribute_def split: option.splits)

lemma collect_modules_lookups:
  "collect_modules this cs tmp w
     = (case resolve_all (sb_application this)
               (map (\<lambda>c. getAttribute c ''data-t-id'' (dom w)) cs) (ext w) of
          (Inl e, x1) \<Rightarrow>
            (Inl e,
             w\<lparr>ext := x1,
               trace := trace w @ map (AppCall GetModuleById)
                 (take (lookups_made (sb_application this)
                          (map (\<lambda>c. getAttribute c ''data-t-id'' (dom w)) cs) (ext w))
                       (map (\<lambda>c. getAttribute c ''data-t-id'' (dom w)) cs))\<rparr>)
        | (Inr vs, x1) \<Rightarrow>
            (Inr (tmp @ filter truthy vs),
             w\<lparr>ext := x1,
               trace := trace w @ map (AppCall GetModuleById)
                 (map (\<lambda>c. getAttribute c ''data-t-id'' (dom w)) cs)\<rparr>))"
proof (induction cs arbitrary: tmp w)
  case Nil
  show ?case by simp
next
  case (Cons c cs)
  let ?i = "getAttribute c ''data-t-id'' (dom w)"
  obtain r x1 where look: "app_getModuleById (sb_application this) ?i (ext w) = (r, x1)"
    by (cases "app_getModuleById (sb_application this) ?i (ext w)")
  let ?w1 = "w\<lparr>ext := x1, trace := trace w @ [AppCall GetModuleById ?i]\<rparr>"
  from look have g: "getModuleById this ?i w = (r, ?w1)"
    by (simp add: getModuleById_def app_call_def)
  show ?case
  proof (cases r)
    case (Inl e)
    with look g show ?thesis
      by (simp add: getAttribute_defined Let_def)
  next
    case (Inr v)
    with look g Cons.IH [of "if truthy v then tmp @ [v] else tmp" ?w1] show ?thesis
      by (simp add: getAttribute_defined Let_def split: prod.splits sum.splits)
  qed
qed

lemma stop_and_unregister_cases:
  "stop_and_unregister this ms w
     = (case app_stop (sb_application this) ms (ext w) of
          (Inl e, x2) \<Rightarrow> (Inl e, w\<lparr>ext := x2, trace := trace w @ [AppCall Stop ms]\<rparr>)
        | (Inr u, x2) \<Rightarrow>
            (case app_unregisterModules (sb_application this) ms x2 of
               (Inl e, x3) \<Rightarrow>
                 (Inl e, w\<lparr>ext := x3,
                           trace := trace w @ [AppCall Stop ms, AppCall UnregisterModules ms]\<rparr>)
             | (Inr u', x3) \<Rightarrow>
                 (Inr (), w\<lparr>ext := x3,
                           trace := trace w @ [AppCall Stop ms, AppCall UnregisterModules ms]\<rparr>)))"
  by (simp add: stop_and_unregister_def app_call_def split: prod.splits sum.splits)

lemmas example_defs =
  example_sandbox_def example_world_def example_dom_def example_registry_def registry_app_def
  Sandbox_def

lemmas run_defs =
  removeModules_def modules_of_node_def createDocumentFragment_def fresh_id_def appendChild_def
  querySelectorAll_def getAttribute_def getModuleById_def app_call_def stop_and_unregister_def
  Let_def

lemma fresh_id_example_dom: "fresh_id example_dom = 7"
  by (simp add: example_dom_def fresh_id_def)

subsection \<open>Stop before unregister\<close>

text \<open>
  C6. Let \<open>removeModules\<close> have an array \<open>hs\<close> in hand when it reaches its second
  \<^verbatim>\<open>if\<close>, given as the argument or derived from a node. Then it calls the
  application's \<open>stop\<close> with \<open>hs\<close> first. If \<open>stop\<close> throws, nothing is
  unregistered and the error leaves \<open>removeModules\<close>; otherwise
  \<open>unregisterModules\<close> is called next, with the same \<open>hs\<close> and in the state \<open>stop\<close>
  left, and when it returns \<open>removeModules\<close> returns the sandbox itself.
\<close>

theorem removeModules_stops_then_unregisters:
  assumes "handle_collection this modules w = (Inr (Arr hs), w1)"
  shows "removeModules this modules w
     = (case app_stop (sb_application this) (Arr hs) (ext w1) of
          (Inl e, x2) \<Rightarrow> (Inl e, w1\<lparr>ext := x2, trace := trace w1 @ [AppCall Stop (Arr hs)]\<rparr>)
        | (Inr u, x2) \<Rightarrow>
            (case app_unregisterModules (sb_application this) (Arr hs) x2 of
               (Inl e, x3) \<Rightarrow>
                 (Inl e, w1\<lparr>ext := x3,
                            trace := trace w1 @ [AppCall Stop (Arr hs),
                                                 AppCall UnregisterModules (Arr hs)]\<rparr>)
             | (Inr u', x3) \<Rightarrow>
                 (Inr this, w1\<lparr>ext := x3,
                               trace := trace w1 @ [AppCall Stop (Arr hs),
                                                    AppCall UnregisterModules (Arr hs)]\<rparr>)))"
  using assms
  by (simp add: removeModules_def stop_and_unregister_cases split: prod.splits sum.splits)

theorem removeModules_stops_then_unregisters_witness:
  "removeModules example_sandbox (Arr [ObjRef 101]) example_world
     = (Inr example_sandbox,
        \<lparr>dom = example_dom,
         ext = \<lparr>reg_modules = [(''2'', ObjRef 102)], reg_running = [ObjRef 102]\<rparr>,
         trace = [AppCall Stop (Arr [ObjRef 101]),
                  AppCall UnregisterModules (Arr [ObjRef 101])]\<rparr>)
   \<and> fst (removeModules example_sandbox (NodeRef 5) example_world) = Inr example_sandbox
   \<and> trace (snd (removeModules example_sandbox (NodeRef 5) example_world))
       = [DomCreateDocumentFragment 7, DomAppendChild 7 5, AppCall GetModuleById (Str ''2''),
          AppCall Stop (Arr [ObjRef 102]), AppCall UnregisterModules (Arr [ObjRef 102])]"
  using removeModules_stops_then_unregisters
          [of example_sandbox "Arr [ObjRef 101]" example_world "[ObjRef 101]" example_world]
    removeModules_stops_then_unregisters
          [of example_sandbox "NodeRef 5" example_world "[ObjRef 102]"
              "snd (modules_of_node example_sandbox 5 example_world)"]
  by (simp add: example_defs run_defs)

subsection \<open>Identifiers that do not resolve\<close>

text \<open>
  C7, as stated, fails: \<open>removeModules\<close> catches nothing. When the application's
  lookup throws for the identifier it does not know, that error leaves
  \<open>removeModules\<close> after the third lookup, and neither \<open>stop\<close> nor
  \<open>unregisterModules\<close> is called for the two handles that did resolve.
\<close>

theorem removeModules_lookup_throws_counterexample:
  "fst (removeModules (Sandbox strict_app empty_object) (NodeRef 2) example_world)
     = Inl (Error ''The module with the id 9 does not exist'')
   \<and> trace (snd (removeModules (Sandbox strict_app empty_object) (NodeRef 2) example_world))
     = [DomCreateDocumentFragment 7, DomAppendChild 7 2,
        AppCall GetModuleById (Str ''1''), AppCall GetModuleById (Str ''2''),
        AppCall GetModuleById (Str ''9'')]"
  by (simp add: example_defs run_defs strict_app_def)

text \<open>
  C7, amended. What \<open>removeModules\<close> does with a node, in every case. If the fragment
  does not take the node, the exception of \<open>appendChild\<close> leaves \<open>removeModules\<close>.
  Otherwise the identifiers \<open>ids\<close> of the marked elements below the fragment are looked
  up in document order. If a lookup throws, its error leaves \<open>removeModules\<close> and
  nothing is stopped or unregistered. If every lookup returns (\<open>vs\<close> lists the
  answers), the elements with a falsy answer are skipped: \<open>stop\<close>, then
  \<open>unregisterModules\<close>, are called with the truthy answers only, and when both return
  \<open>removeModules\<close> returns the sandbox.
\<close>

theorem removeModules_skips_unresolved:
  "removeModules this (NodeRef n) w
     = (let f = fresh_id (dom w);
            calls = trace w @ [DomCreateDocumentFragment f, DomAppendChild f n]
        in case appendChild f n (snd (createDocumentFragment (dom w))) of
             Inl e \<Rightarrow>
               (Inl e, \<lparr>dom = snd (createDocumentFragment (dom w)), ext = ext w, trace = calls\<rparr>)
           | Inr d2 \<Rightarrow>
               (let ids = map (\<lambda>c. getAttribute c ''data-t-id'' d2)
                              (querySelectorAll f ''data-t-name'' d2)
                in case resolve_all (sb_application this) ids (ext w) of
                     (Inl e, x1) \<Rightarrow>
                       (Inl e,
                        \<lparr>dom = d2, ext = x1,
                         trace = calls @ map (AppCall GetModuleById)
                                   (take (lookups_made (sb_application this) ids (ext w)) ids)\<rparr>)
                   | (Inr vs, x1) \<Rightarrow>
                       (case app_stop (sb_application this) (Arr (filter truthy vs)) x1 of
                          (Inl e, x2) \<Rightarrow>
                            (Inl e,
                             \<lparr>dom = d2, ext = x2,
                              trace = calls @ map (AppCall GetModuleById) ids
                                        @ [AppCall Stop (Arr (filter truthy vs))]\<rparr>)
                        | (Inr u, x2) \<Rightarrow>
                            (case app_unregisterModules (sb_application this)
                                    (Arr (filter truthy vs)) x2 of
                               (Inl e, x3) \<Rightarrow>
                                 (Inl e,
                                  \<lparr>dom = d2, ext = x3,
                                   trace = calls @ map (AppCall GetModuleById) ids
                                     @ [AppCall Stop (Arr (filter truthy vs)),
                                        AppCall UnregisterModules (Arr (filter truthy vs))]\<rparr>)
                             | (Inr u', x3) \<Rightarrow>
                                 (Inr this,
                                  \<lparr>dom = d2, ext = x3,
                                   trace = calls @ map (AppCall GetModuleById) ids
                                     @ [AppCall Stop (Arr (filter truthy vs)),
                                        AppCall UnregisterModules (Arr (filter truthy vs))]\<rparr>)))))"
  by (simp add: removeModules_def modules_of_node_def createDocumentFragment_def
      collect_modules_lookups stop_and_unregister_cases Let_def comp_def
      split: prod.splits sum.splits)

theorem removeModules_skips_unresolved_witness:
  "removeModules example_sandbox (NodeRef 2) example_world
     = (Inr example_sandbox,
        \<lparr>dom =
           [DomTree 0 DocumentNode [] [DomTree 1 ElementNode [(''class'', ''body'')] []],
            DomTree 7 DocumentFragmentNode []
              [DomTree 2 ElementNode [(''class'', ''container'')]
                [DomTree 3 ElementNode [(''data-t-name'', ''Teaser''), (''data-t-id'', ''1'')]
                   [DomTree 4 TextNode [] []],
                 DomTree 5 ElementNode [(''data-t-name'', ''Slider''), (''data-t-id'', ''2'')] [],
                 DomTree 6 ElementNode [(''data-t-name'', ''Gone''), (''data-t-id'', ''9'')] []]]],
         ext = \<lparr>reg_modules = [], reg_running = []\<rparr>,
         trace =
           [DomCreateDocumentFragment 7, DomAppendChild 7 2,
            AppCall GetModuleById (Str ''1''), AppCall GetModuleById (Str ''2''),
            AppCall GetModuleById (Str ''9''),
            AppCall Stop (Arr [ObjRef 101, ObjRef 102]),
            AppCall UnregisterModules (Arr [ObjRef 101, ObjRef 102])]\<rparr>)"
  using removeModules_skips_unresolved [of example_sandbox 2 example_world]
  by (simp add: example_defs createDocumentFragment_def fresh_id_def appendChild_def
        querySelectorAll_def getAttribute_def Let_def)

subsection \<open>The node leaves its tree\<close>

text \<open>
  C9, as stated, fails for the nodes that a fragment does not adopt. Called with the
  document, \<open>removeModules\<close> throws the \<^verbatim>\<open>HierarchyRequestError\<close> of \<open>appendChild\<close>:
  the document stays where it was and the new fragment stays empty. Called with a
  fragment, it moves the children of that fragment to the new one; the fragment itself
  is not appended and has no parent afterwards.
\<close>

theorem removeModules_rejected_node_counterexample:
  "map_option node_kind (find_node 0 (dom example_world)) = Some DocumentNode
   \<and> removeModules example_sandbox (NodeRef 0) example_world
     = (Inl (DOMException ''HierarchyRequestError''),
        \<lparr>dom = example_dom @ [DomTree 7 DocumentFragmentNode [] []],
         ext = example_registry,
         trace = [DomCreateDocumentFragment 7, DomAppendChild 7 0]\<rparr>)
   \<and> dom (snd (removeModules example_sandbox (NodeRef 1) fragment_world))
     = [DomTree 0 DocumentNode [] [],
        DomTree 1 DocumentFragmentNode [] [],
        DomTree 3 DocumentFragmentNode []
          [DomTree 2 ElementNode [(''data-t-name'', ''Slider''), (''data-t-id'', ''2'')] []]]
   \<and> parent_of 1 (dom (snd (removeModules example_sandbox (NodeRef 1) fragment_world))) = None"
  by (simp add: example_defs run_defs fragment_world_def)

text \<open>
  C9, amended. Let \<open>removeModules\<close> be called with a node of the store that is an
  element, a text or a comment. Whatever the call returns or throws, the DOM it leaves
  is the store without the node's subtree, followed by a fragment that did not exist
  before and has the node as its only child: the node is nowhere else, and its parent is
  the fragment. The creation of the fragment and the \<open>appendChild\<close> are the first two
  things the call does, before any lookup of a handle.
\<close>

theorem removeModules_detaches_node:
  assumes t: "find_node n (dom w) = Some t"
    and kind: "node_kind t = ElementNode \<or> node_kind t = TextNode \<or> node_kind t = CommentNode"
    and run: "removeModules this (NodeRef n) w = (r, w')"
  shows "fresh_id (dom w) \<notin> set (forest_ids (dom w))
         \<and> dom w' = remove_node n (dom w)
                       @ [DomTree (fresh_id (dom w)) DocumentFragmentNode [] [t]]
         \<and> n \<notin> set (forest_ids (remove_node n (dom w)))
         \<and> parent_of n (dom w') = Some (fresh_id (dom w))
         \<and> prefix (trace w @ [DomCreateDocumentFragment (fresh_id (dom w)),
                               DomAppendChild (fresh_id (dom w)) n]) (trace w')"
proof -
  let ?f = "fresh_id (dom w)"
  let ?d2 = "remove_node n (dom w) @ [DomTree ?f DocumentFragmentNode [] [t]]"
  let ?pre = "trace w @ [DomCreateDocumentFragment ?f, DomAppendChild ?f n]"
  obtain r1 w1 where m: "modules_of_node this n w = (r1, w1)"
    by (cases "modules_of_node this n w")
  from modules_of_node_frame [OF t kind m]
  have f1: "dom w1 = ?d2" "prefix ?pre (trace w1)" by simp_all
  have frame: "dom w' = ?d2 \<and> prefix ?pre (trace w')"
  proof (cases r1)
    case (Inl e)
    with m run f1 show ?thesis by (simp add: removeModules_def)
  next
    case (Inr ms)
    show ?thesis
    proof (cases "isArray ms")
      case False
      with Inr m run f1 show ?thesis by (simp add: removeModules_def)
    next
      case True
      obtain r2 w2 where s: "stop_and_unregister this ms w1 = (r2, w2)"
        by (cases "stop_and_unregister this ms w1")
      from stop_and_unregister_frame [OF s] f1
      have "dom w2 = ?d2" "prefix ?pre (trace w2)"
        by (auto intro: prefix_order.trans)
      moreover from True Inr m run s have "w' = w2"
        by (auto simp: removeModules_def split: sum.splits)
      ultimately show ?thesis by simp
    qed
  qed
  have gone: "n \<notin> set (forest_ids (remove_node n (dom w)))"
    using remove_ids(2) [of n "dom w"] by auto
  from find_found(2) [OF t] have nid: "node_id t = n" by simp
  from gone nid have "parent_of n ?d2 = Some ?f"
    by (simp add: parent_of_append parent_absent(2))
  with frame gone fresh_id_fresh [of "dom w"] show ?thesis by simp
qed

theorem removeModules_detaches_node_witness:
  "parent_of 2 (dom example_world) = Some 1
   \<and> parent_of 2 (dom (snd (removeModules example_sandbox (NodeRef 2) example_world))) = Some 7
   \<and> 7 \<notin> set (forest_ids (dom example_world))
   \<and> find_node 1 (dom (snd (removeModules example_sandbox (NodeRef 2) example_world)))
       = Some (DomTree 1 ElementNode [(''class'', ''body'')] [])
   \<and> prefix [DomCreateDocumentFragment 7, DomAppendChild 7 2]
        (trace (snd (removeModules example_sandbox (NodeRef 2) example_world)))"
proof -
  let ?t = "DomTree 2 ElementNode [(''class'', ''container'')]
              [DomTree 3 ElementNode [(''data-t-name'', ''Teaser''), (''data-t-id'', ''1'')]
                 [DomTree 4 TextNode [] []],
               DomTree 5 ElementNode [(''data-t-name'', ''Slider''), (''data-t-id'', ''2'')] [],
               DomTree 6 ElementNode [(''data-t-name'', ''Gone''), (''data-t-id'', ''9'')] []]"
  let ?w' = "snd (removeModules example_sandbox (NodeRef 2) example_world)"
  have d: "dom example_world = example_dom" by (simp add: example_world_def)
  have t: "find_node 2 (dom example_world) = Some ?t"
    by (simp add: example_world_def example_dom_def)
  have k: "node_kind ?t = ElementNode \<or> node_kind ?t = TextNode \<or> node_kind ?t = CommentNode"
    by simp
  have r: "removeModules example_sandbox (NodeRef 2) example_world
             = (fst (removeModules example_sandbox (NodeRef 2) example_world), ?w')"
    by simp
  note c = removeModules_detaches_node [OF t k r, unfolded d fresh_id_example_dom]
  from c have "parent_of 2 (dom ?w') = Some 7" by blast
  moreover from c have "7 \<notin> set (forest_ids example_dom)" by blast
  moreover from c
  have "dom ?w' = remove_node 2 example_dom @ [DomTree 7 DocumentFragmentNode [] [?t]]"
    by blast
  moreover from c
  have "prefix ([] @ [DomCreateDocumentFragment 7, DomAppendChild 7 2]) (trace ?w')"
    by (simp add: example_world_def)
  moreover have "parent_of 2 (dom example_world) = Some 1"
    by (simp add: example_world_def example_dom_def)
  moreover have "find_node 1 (remove_node 2 example_dom @ [DomTree 7 DocumentFragmentNode [] [?t]])
      = Some (DomTree 1 ElementNode [(''class'', ''body'')] [])"
    by (simp add: example_dom_def)
  ultimately show ?thesis by (simp add: d)
qed


end
